theory Spec2Isabelle
  imports Main "HOL-Library.AList"
begin

section \<open>Python values, exceptions and built-ins used by the server\<close>

text \<open>
  The handlers of \<^verbatim>\<open>server.py\<close> receive \<^verbatim>\<open>arguments: dict[str, Any]\<close> and the
  decoded JSON body of the upstream response. Both are modelled by one datatype of Python
  values. A dict is an association list in insertion order (its keys are strings, as in
  JSON); \<open>map_of\<close> is the lookup. Floating-point numbers are left out of the model.
  Characters are 8-bit code points.
\<close>

datatype pyval =
    PNone
  | PBool bool
  | PInt int
  | PStr string
  | PList "pyval list"
  | PDict "(string \<times> pyval) list"

type_synonym pydict = "(string \<times> pyval) list"

text \<open>
  Exceptions, all of them subclasses of Python's \<^verbatim>\<open>Exception\<close>. \<open>KeyError\<close> carries
  the missing key, \<open>ValidationError\<close> the value pydantic rejected; the others carry their
  message. \<open>RaisedException\<close> is whatever \<^verbatim>\<open>requests.get\<close> or
  \<^verbatim>\<open>response.json()\<close> raises.
\<close>

datatype exn =
    KeyError string
  | TypeError string
  | AttributeError string
  | ValidationError pyval
  | ValueError string
  | RaisedException string

subsection \<open>Decimal rendering of integers\<close>

definition digit_char :: "nat \<Rightarrow> char" where
  "digit_char n = ''0123456789abcdef'' ! n"

fun show_nat :: "nat \<Rightarrow> string" where
  "show_nat n = (if n < 10 then [digit_char n] else show_nat (n div 10) @ [digit_char (n mod 10)])"

declare show_nat.simps [simp del]

definition show_int :: "int \<Rightarrow> string" where
  "show_int i = (if i < 0 then CHR ''-'' # show_nat (nat (- i)) else show_nat (nat i))"

subsection \<open>\<^verbatim>\<open>repr\<close> and \<^verbatim>\<open>str\<close>\<close>

text \<open>
  \<^verbatim>\<open>repr\<close> of a string: double quotes when the string has a single quote and no double
  quote, single quotes otherwise; the quote and the backslash are escaped, tab, newline and
  carriage return are written \<^verbatim>\<open>\t \n \r\<close>, every other non-printable code point as
  \<^verbatim>\<open>\xNN\<close>.
\<close>

definition printable :: "char \<Rightarrow> bool" where
  "printable c = (let n = (of_char c :: nat) in
     (32 \<le> n \<and> n < 127) \<or> (161 \<le> n \<and> n \<noteq> 173))"

definition repr_char :: "char \<Rightarrow> char \<Rightarrow> string" where
  "repr_char q c =
    (if c = q \<or> c = CHR 0x5C then [CHR 0x5C, c]
     else if c = CHR 0x09 then [CHR 0x5C, CHR ''t'']
     else if c = CHR 0x0A then [CHR 0x5C, CHR ''n'']
     else if c = CHR 0x0D then [CHR 0x5C, CHR ''r'']
     else if printable c then [c]
     else [CHR 0x5C, CHR ''x'', digit_char (of_char c div 16), digit_char (of_char c mod 16)])"

definition repr_str :: "string \<Rightarrow> string" where
  "repr_str s =
    (let q = (if CHR 0x27 \<in> set s \<and> CHR 0x22 \<notin> set s then CHR 0x22 else CHR 0x27)
     in [q] @ concat (map (repr_char q) s) @ [q])"

fun join :: "string \<Rightarrow> string list \<Rightarrow> string" where
  "join sep [] = []"
| "join sep [x] = x"
| "join sep (x # y # ys) = x @ sep @ join sep (y # ys)"

fun py_repr :: "pyval \<Rightarrow> string" where
  "py_repr PNone = ''None''"
| "py_repr (PBool b) = (if b then ''True'' else ''False'')"
| "py_repr (PInt i) = show_int i"
| "py_repr (PStr s) = repr_str s"
| "py_repr (PList xs) = ''['' @ join '', '' (map py_repr xs) @ '']''"
| "py_repr (PDict kvs) =
     ''{'' @ join '', '' (map (\<lambda>kv. repr_str (fst kv) @ '': '' @ py_repr (snd kv)) kvs) @ ''}''"

text \<open>\<^verbatim>\<open>str(x)\<close>, which is also what an f-string field \<^verbatim>\<open>{x}\<close> renders.\<close>

fun py_str :: "pyval \<Rightarrow> string" where
  "py_str (PStr s) = s"
| "py_str v = py_repr v"

definition quoted :: "string \<Rightarrow> string" where
  "quoted s = [CHR 0x27] @ s @ [CHR 0x27]"

fun type_name :: "pyval \<Rightarrow> string" where
  "type_name PNone = ''NoneType''"
| "type_name (PBool b) = ''bool''"
| "type_name (PInt i) = ''int''"
| "type_name (PStr s) = ''str''"
| "type_name (PList xs) = ''list''"
| "type_name (PDict kvs) = ''dict''"

text \<open>
  \<^verbatim>\<open>str(e)\<close> of an exception. For a \<^verbatim>\<open>KeyError\<close> it is the \<^verbatim>\<open>repr\<close> of the key.
  Of pydantic's message only the first line is kept.
\<close>

fun exn_str :: "exn \<Rightarrow> string" where
  "exn_str (KeyError k) = repr_str k"
| "exn_str (TypeError m) = m"
| "exn_str (AttributeError m) = m"
| "exn_str (ValidationError v) = ''1 validation error for TextContent''"
| "exn_str (ValueError m) = m"
| "exn_str (RaisedException m) = m"

subsection \<open>Truthiness, \<^verbatim>\<open>min\<close>, \<^verbatim>\<open>lower\<close>, \<^verbatim>\<open>in\<close>, subscription\<close>

fun py_truthy :: "pyval \<Rightarrow> bool" where
  "py_truthy PNone = False"
| "py_truthy (PBool b) = b"
| "py_truthy (PInt i) = (i \<noteq> 0)"
| "py_truthy (PStr s) = (s \<noteq> [])"
| "py_truthy (PList xs) = (xs \<noteq> [])"
| "py_truthy (PDict kvs) = (kvs \<noteq> [])"

text \<open>
  \<^verbatim>\<open>min(x, c)\<close> for an integer constant \<open>c\<close>: Python keeps \<open>x\<close> unless \<^verbatim>\<open>c < x\<close>, and
  that comparison raises \<^verbatim>\<open>TypeError\<close> when \<open>x\<close> is not a number. A bool compares as 0 or 1.
\<close>

fun py_min :: "pyval \<Rightarrow> int \<Rightarrow> exn + pyval" where
  "py_min (PInt i) c = Inr (if c < i then PInt c else PInt i)"
| "py_min (PBool b) c = Inr (if c < (if b then 1 else 0) then PInt c else PBool b)"
| "py_min v c =
     Inl (TypeError (quoted ''<'' @ '' not supported between instances of 'int' and '' @ quoted (type_name v)))"

definition lower_char :: "char \<Rightarrow> char" where
  "lower_char c = (let n = (of_char c :: nat) in
     if (65 \<le> n \<and> n \<le> 90) \<or> (192 \<le> n \<and> n \<le> 222 \<and> n \<noteq> 215) then char_of (n + 32) else c)"

definition lower :: "string \<Rightarrow> string" where
  "lower s = map lower_char s"

text \<open>\<^verbatim>\<open>v.lower()\<close>: only a string has the method.\<close>

fun py_lower :: "pyval \<Rightarrow> exn + string" where
  "py_lower (PStr s) = Inr (lower s)"
| "py_lower v = Inl (AttributeError (quoted (type_name v) @ '' object has no attribute '' @ quoted ''lower''))"

fun starts_with :: "string \<Rightarrow> string \<Rightarrow> bool" where
  "starts_with [] s = True"
| "starts_with (p # ps) [] = False"
| "starts_with (p # ps) (c # cs) = (p = c \<and> starts_with ps cs)"

fun substring :: "string \<Rightarrow> string \<Rightarrow> bool" where
  "substring p [] = (p = [])"
| "substring p (c # cs) = (starts_with p (c # cs) \<or> substring p cs)"

text \<open>
  \<^verbatim>\<open>k in v\<close> for a string \<open>k\<close>: key membership in a dict, element membership in a list,
  substring test in a string, \<^verbatim>\<open>TypeError\<close> otherwise.
\<close>

fun py_in :: "string \<Rightarrow> pyval \<Rightarrow> exn + bool" where
  "py_in k (PDict kvs) = Inr (k \<in> set (map fst kvs))"
| "py_in k (PList xs) = Inr (PStr k \<in> set xs)"
| "py_in k (PStr s) = Inr (substring k s)"
| "py_in k v = Inl (TypeError (''argument of type '' @ quoted (type_name v) @ '' is not iterable''))"

text \<open>\<^verbatim>\<open>v[k]\<close> for a string \<open>k\<close>.\<close>

fun py_getitem :: "pyval \<Rightarrow> string \<Rightarrow> exn + pyval" where
  "py_getitem (PDict kvs) k = (case map_of kvs k of None \<Rightarrow> Inl (KeyError k) | Some v \<Rightarrow> Inr v)"
| "py_getitem (PList xs) k = Inl (TypeError ''list indices must be integers or slices, not str'')"
| "py_getitem (PStr s) k = Inl (TypeError (''string indices must be integers, not '' @ quoted ''str''))"
| "py_getitem v k = Inl (TypeError (quoted (type_name v) @ '' object is not subscriptable''))"

text \<open>\<^verbatim>\<open>', '.join(v.keys())\<close> and \<^verbatim>\<open>v.get(k, d)\<close>: only a dict has the methods.\<close>

fun py_join_keys :: "pyval \<Rightarrow> exn + string" where
  "py_join_keys (PDict kvs) = Inr (join '', '' (map fst kvs))"
| "py_join_keys v = Inl (AttributeError (quoted (type_name v) @ '' object has no attribute '' @ quoted ''keys''))"

fun py_get :: "pyval \<Rightarrow> string \<Rightarrow> pyval \<Rightarrow> exn + pyval" where
  "py_get (PDict kvs) k d = Inr (case map_of kvs k of None \<Rightarrow> d | Some v \<Rightarrow> v)"
| "py_get v k d = Inl (AttributeError (quoted (type_name v) @ '' object has no attribute '' @ quoted ''get''))"

text \<open>\<^verbatim>\<open>arguments[k]\<close> and \<^verbatim>\<open>arguments.get(k, d)\<close> on the arguments dict.\<close>

definition dict_item :: "pydict \<Rightarrow> string \<Rightarrow> exn + pyval" where
  "dict_item arguments k = (case map_of arguments k of None \<Rightarrow> Inl (KeyError k) | Some v \<Rightarrow> Inr v)"

definition dict_get :: "pydict \<Rightarrow> string \<Rightarrow> pyval \<Rightarrow> pyval" where
  "dict_get arguments k d = (case map_of arguments k of None \<Rightarrow> d | Some v \<Rightarrow> v)"

section \<open>The server\<close>

text \<open>
  \<^verbatim>\<open>SemanticScholarServer.__init__\<close> stores the optional API key and the fixed base URL.
\<close>

record adapter =
  api_key :: "string option"
  base_url :: string

definition SemanticScholarServer :: "string option \<Rightarrow> adapter" where
  "SemanticScholarServer key =
     \<lparr>api_key = key, base_url = ''https://api.semanticscholar.org/graph/v1''\<rparr>"

text \<open>
  The keyword arguments of one \<^verbatim>\<open>requests.get\<close> call, and what the handlers read of
  the response: \<^verbatim>\<open>status_code\<close>, \<^verbatim>\<open>text\<close>, and the outcome of \<^verbatim>\<open>json()\<close>, which
  raises on a body that is not JSON. The upstream service is a function from the request to
  either an exception or a response.
\<close>

record request =
  url :: string
  params :: pydict
  headers :: "(string \<times> string) list"
  timeout :: nat

record response =
  status_code :: int
  "text" :: string
  json :: "exn + pyval"

type_synonym upstream = "request \<Rightarrow> exn + response"

text \<open>
  \<^verbatim>\<open>mcp.types.TextContent\<close> is a pydantic model whose field \<^verbatim>\<open>text\<close> is declared
  \<^verbatim>\<open>str\<close>: constructing it with a value that is not a string raises pydantic's
  \<^verbatim>\<open>ValidationError\<close>.
\<close>

record TextContent =
  "type" :: string
  "text" :: string

fun new_TextContent :: "pyval \<Rightarrow> exn + TextContent" where
  "new_TextContent (PStr s) = Inr \<lparr>type = ''text'', text = s\<rparr>"
| "new_TextContent v = Inl (ValidationError v)"

text \<open>\<^verbatim>\<open>return [TextContent(type="text", text=v)]\<close>\<close>

definition return_text :: "pyval \<Rightarrow> exn + TextContent list" where
  "return_text v = (case new_TextContent v of Inl e \<Rightarrow> Inl e | Inr t \<Rightarrow> Inr [t])"

text \<open>
  \<^verbatim>\<open>try: body except Exception as e: return [TextContent(type="text", text=f"{label}{str(e)}")]\<close>
\<close>

definition try_except :: "string \<Rightarrow> exn + TextContent list \<Rightarrow> exn + TextContent list" where
  "try_except label body =
     (case body of Inr r \<Rightarrow> Inr r | Inl e \<Rightarrow> return_text (PStr (label @ exn_str e)))"

subsection \<open>Headers\<close>

definition get_headers :: "adapter \<Rightarrow> (string \<times> string) list" where
  "get_headers a =
     (let headers = [(''Accept'', ''application/json'')] in
      case api_key a of
        None \<Rightarrow> headers
      | Some k \<Rightarrow> if k \<noteq> [] then AList.update ''x-api-key'' k headers else headers)"

subsection \<open>\<^verbatim>\<open>_handle_search_paper\<close>\<close>

definition search_paper_default_fields :: string where
  "search_paper_default_fields = ''paperId,title,abstract,authors,year,citationCount''"

text \<open>
  The loop over the pass-through parameter names:
  \<^verbatim>\<open>if queryParams in arguments: params[queryParams] = arguments[queryParams]\<close>.
\<close>

fun copy_params :: "string list \<Rightarrow> pydict \<Rightarrow> pydict \<Rightarrow> pydict" where
  "copy_params [] arguments ps = ps"
| "copy_params (k # ks) arguments ps =
     copy_params ks arguments
       (case map_of arguments k of None \<Rightarrow> ps | Some v \<Rightarrow> AList.update k v ps)"

definition search_paper_params :: "pydict \<Rightarrow> exn + pydict" where
  "search_paper_params arguments =
     (case dict_item arguments ''query'' of
        Inl e \<Rightarrow> Inl e
      | Inr query \<Rightarrow>
          (case py_min (dict_get arguments ''limit'' (PInt 10)) 100 of
             Inl e \<Rightarrow> Inl e
           | Inr limit \<Rightarrow>
               (let ps = [(''query'', query),
                          (''fields'', dict_get arguments ''fields'' (PStr search_paper_default_fields)),
                          (''offset'', dict_get arguments ''offset'' (PInt 0)),
                          (''limit'', limit)];
                    ps = copy_params [''publicationTypes'', ''minCitationCount'',
                            ''publicationDateOrYear'', ''year'', ''venue'', ''fieldsOfStudy'']
                           arguments ps;
                    ps = (if py_truthy (dict_get arguments ''openAccessPdf'' PNone)
                          then AList.update ''openAccessPdf'' (PStr []) ps else ps)
                in Inr ps)))"

definition search_paper_request :: "adapter \<Rightarrow> pydict \<Rightarrow> exn + request" where
  "search_paper_request a arguments =
     (case search_paper_params arguments of
        Inl e \<Rightarrow> Inl e
      | Inr ps \<Rightarrow> Inr \<lparr>url = base_url a @ ''/paper/search'', params = ps,
                      headers = get_headers a, timeout = 30\<rparr>)"

definition api_error :: "response \<Rightarrow> string" where
  "api_error r =
     ''Error: API returned status '' @ show_int (status_code r) @ '': '' @ response.text r"

definition search_paper_try :: "adapter \<Rightarrow> upstream \<Rightarrow> pydict \<Rightarrow> exn + TextContent list" where
  "search_paper_try a up arguments =
     (case search_paper_request a arguments of
        Inl e \<Rightarrow> Inl e
      | Inr rq \<Rightarrow>
          (case up rq of
             Inl e \<Rightarrow> Inl e
           | Inr r \<Rightarrow>
               if status_code r \<noteq> 200 then return_text (PStr (api_error r))
               else (case json r of
                       Inl e \<Rightarrow> Inl e
                     | Inr res \<Rightarrow> return_text (PStr (py_str res)))))"

definition handle_search_paper :: "adapter \<Rightarrow> upstream \<Rightarrow> pydict \<Rightarrow> exn + TextContent list" where
  "handle_search_paper a up arguments =
     try_except ''Error searching papers: '' (search_paper_try a up arguments)"

subsection \<open>\<^verbatim>\<open>_handle_get_paper\<close>\<close>

definition get_paper_default_fields :: string where
  "get_paper_default_fields =
     ''paperId,title,abstract,authors,year,citationCount,referenceCount,fieldsOfStudy,publicationTypes,publicationDate,journal,openAccessPdf''"

definition get_paper_request :: "adapter \<Rightarrow> pyval \<Rightarrow> pydict \<Rightarrow> request" where
  "get_paper_request a paper_id arguments =
     \<lparr>url = base_url a @ ''/paper/'' @ py_str paper_id,
      params = [(''fields'', dict_get arguments ''fields'' (PStr get_paper_default_fields))],
      headers = get_headers a, timeout = 30\<rparr>"

definition get_paper_try :: "adapter \<Rightarrow> upstream \<Rightarrow> pydict \<Rightarrow> exn + TextContent list" where
  "get_paper_try a up arguments =
     (case dict_item arguments ''paper_id'' of
        Inl e \<Rightarrow> Inl e
      | Inr paper_id \<Rightarrow>
          (case up (get_paper_request a paper_id arguments) of
             Inl e \<Rightarrow> Inl e
           | Inr r \<Rightarrow>
               if status_code r = 404
               then return_text (PStr (''Paper not found: '' @ py_str paper_id))
               else if status_code r \<noteq> 200 then return_text (PStr (api_error r))
               else (case json r of
                       Inl e \<Rightarrow> Inl e
                     | Inr res \<Rightarrow> return_text (PStr (py_str res)))))"

definition handle_get_paper :: "adapter \<Rightarrow> upstream \<Rightarrow> pydict \<Rightarrow> exn + TextContent list" where
  "handle_get_paper a up arguments =
     try_except ''Error getting paper details: '' (get_paper_try a up arguments)"

subsection \<open>\<^verbatim>\<open>_handle_get_authors\<close>\<close>

definition get_authors_default_fields :: string where
  "get_authors_default_fields = ''authorId,name,affiliations,citationCount,hIndex''"

definition get_authors_request :: "adapter \<Rightarrow> pyval \<Rightarrow> pydict \<Rightarrow> exn + request" where
  "get_authors_request a paper_id arguments =
     (case py_min (dict_get arguments ''limit'' (PInt 100)) 1000 of
        Inl e \<Rightarrow> Inl e
      | Inr limit \<Rightarrow>
          Inr \<lparr>url = base_url a @ ''/paper/'' @ py_str paper_id @ ''/authors'',
               params = [(''fields'', dict_get arguments ''fields'' (PStr get_authors_default_fields)),
                         (''offset'', dict_get arguments ''offset'' (PInt 0)),
                         (''limit'', limit)],
               headers = get_headers a, timeout = 30\<rparr>)"

text \<open>
  On status 200 the source passes the decoded body itself as \<^verbatim>\<open>text\<close>
  (\<^verbatim>\<open>TextContent(type="text", text=res)\<close>), where the two handlers above pass
  \<^verbatim>\<open>str(res)\<close>.
\<close>

definition get_authors_try :: "adapter \<Rightarrow> upstream \<Rightarrow> pydict \<Rightarrow> exn + TextContent list" where
  "get_authors_try a up arguments =
     (case dict_item arguments ''paper_id'' of
        Inl e \<Rightarrow> Inl e
      | Inr paper_id \<Rightarrow>
          (case get_authors_request a paper_id arguments of
             Inl e \<Rightarrow> Inl e
           | Inr rq \<Rightarrow>
               (case up rq of
                  Inl e \<Rightarrow> Inl e
                | Inr r \<Rightarrow>
                    if status_code r = 404
                    then return_text (PStr (''Paper not found: '' @ py_str paper_id))
                    else if status_code r \<noteq> 200 then return_text (PStr (api_error r))
                    else (case json r of
                            Inl e \<Rightarrow> Inl e
                          | Inr res \<Rightarrow> return_text res))))"

definition handle_get_authors :: "adapter \<Rightarrow> upstream \<Rightarrow> pydict \<Rightarrow> exn + TextContent list" where
  "handle_get_authors a up arguments =
     try_except ''Error getting authors: '' (get_authors_try a up arguments)"

subsection \<open>\<^verbatim>\<open>_handle_get_citation\<close> and \<^verbatim>\<open>add_abstract\<close>\<close>

definition add_abstract :: "pyval \<Rightarrow> pyval \<Rightarrow> string \<Rightarrow> string" where
  "add_abstract citation abstract citation_format = ''TODO''"

definition get_citation_request :: "adapter \<Rightarrow> pyval \<Rightarrow> request" where
  "get_citation_request a paper_id =
     \<lparr>url = base_url a @ ''/paper/'' @ py_str paper_id,
      params = [(''fields'', PStr ''citationStyles, abstract'')],
      headers = get_headers a, timeout = 30\<rparr>"

text \<open>
  The part of the handler after \<^verbatim>\<open>data = response.json()\<close>. The source evaluates
  \<^verbatim>\<open>data["citationStyles"]\<close> up to three times; \<open>data\<close> does not change in between, so
  the model evaluates it once.
\<close>

definition citation_of_data :: "string \<Rightarrow> pyval \<Rightarrow> exn + TextContent list" where
  "citation_of_data citation_format data =
     (case py_in ''citationStyles'' data of
        Inl e \<Rightarrow> Inl e
      | Inr present \<Rightarrow>
          if \<not> present then return_text (PStr ''No citation styles available for this paper.'')
          else
            (case py_getitem data ''citationStyles'' of
               Inl e \<Rightarrow> Inl e
             | Inr styles \<Rightarrow>
                 (case py_in citation_format styles of
                    Inl e \<Rightarrow> Inl e
                  | Inr available \<Rightarrow>
                      if \<not> available then
                        (case py_join_keys styles of
                           Inl e \<Rightarrow> Inl e
                         | Inr ks \<Rightarrow>
                             return_text (PStr (''Citation format '' @ quoted citation_format @
                               '' not available. Available formats for this paper: '' @ ks)))
                      else
                        (case py_getitem styles citation_format of
                           Inl e \<Rightarrow> Inl e
                         | Inr citation \<Rightarrow>
                             (case py_get data ''abstract'' (PStr []) of
                                Inl e \<Rightarrow> Inl e
                              | Inr abstract \<Rightarrow>
                                  return_text (PStr (add_abstract citation abstract citation_format)))))))"

definition get_citation_try :: "adapter \<Rightarrow> upstream \<Rightarrow> pydict \<Rightarrow> exn + TextContent list" where
  "get_citation_try a up arguments =
     (case dict_item arguments ''paper_id'' of
        Inl e \<Rightarrow> Inl e
      | Inr paper_id \<Rightarrow>
          (case py_lower (dict_get arguments ''format'' (PStr ''bibtex'')) of
             Inl e \<Rightarrow> Inl e
           | Inr citation_format \<Rightarrow>
               (case up (get_citation_request a paper_id) of
                  Inl e \<Rightarrow> Inl e
                | Inr r \<Rightarrow>
                    if status_code r = 404
                    then return_text (PStr (''Paper not found: '' @ py_str paper_id))
                    else if status_code r \<noteq> 200 then return_text (PStr (api_error r))
                    else (case json r of
                            Inl e \<Rightarrow> Inl e
                          | Inr data \<Rightarrow> citation_of_data citation_format data))))"

definition handle_get_citation :: "adapter \<Rightarrow> upstream \<Rightarrow> pydict \<Rightarrow> exn + TextContent list" where
  "handle_get_citation a up arguments =
     try_except ''Error generating citation: '' (get_citation_try a up arguments)"

subsection \<open>Dispatch and resources\<close>






section \<open>Properties\<close>

subsection \<open>Building a result and the guarded block\<close>

lemma return_text_str: "return_text (PStr s) = Inr [\<lparr>type = ''text'', text = s\<rparr>]"
  by (simp add: return_text_def)

lemma try_except_Inr: "try_except label (Inr r) = Inr r"
  by (simp add: try_except_def)

lemma try_except_Inl:
  "try_except label (Inl e) = Inr [\<lparr>type = ''text'', text = label @ exn_str e\<rparr>]"
  by (simp add: try_except_def return_text_str)










subsection \<open>No handler raises\<close>




subsection \<open>The outbound request\<close>










subsection \<open>Status 404 and missing required arguments\<close>

text \<open>
  Claim C7. When \<^verbatim>\<open>get_paper\<close> or \<^verbatim>\<open>get_authors\<close> is called with the string \<open>X\<close> as
  \<open>paper_id\<close> and the upstream answers the request with status 404, the handler returns
  exactly one \<open>TextContent\<close>, whose text is \<open>Paper not found: X\<close>.
\<close>

theorem paper_not_found:
  assumes "map_of arguments ''paper_id'' = Some (PStr X)"
  shows "(up (get_paper_request a (PStr X) arguments) = Inr r \<and> status_code r = 404 \<longrightarrow>
            handle_get_paper a up arguments
              = Inr [\<lparr>type = ''text'', text = ''Paper not found: '' @ X\<rparr>])
       \<and> (get_authors_request a (PStr X) arguments = Inr rq \<and> up rq = Inr r' \<and>
            status_code r' = 404 \<longrightarrow>
            handle_get_authors a up arguments
              = Inr [\<lparr>type = ''text'', text = ''Paper not found: '' @ X\<rparr>])"
  using assms
  by (simp add: handle_get_paper_def get_paper_try_def handle_get_authors_def
      get_authors_try_def dict_item_def try_except_Inr return_text_str)

theorem paper_not_found_witness:
  "handle_get_paper (SemanticScholarServer None)
      (\<lambda>rq. Inr \<lparr>status_code = 404, text = ''Not Found'', json = Inl (RaisedException ''no body'')\<rparr>)
      [(''paper_id'', PStr ''nonexistent'')]
     = Inr [\<lparr>type = ''text'', text = ''Paper not found: nonexistent''\<rparr>]
   \<and> handle_get_authors (SemanticScholarServer None)
      (\<lambda>rq. Inr \<lparr>status_code = 404, text = ''Not Found'', json = Inl (RaisedException ''no body'')\<rparr>)
      [(''paper_id'', PStr ''nonexistent'')]
     = Inr [\<lparr>type = ''text'', text = ''Paper not found: nonexistent''\<rparr>]"
proof -
  let ?a = "SemanticScholarServer None"
  let ?r = "\<lparr>status_code = 404, text = ''Not Found'', json = Inl (RaisedException ''no body'')\<rparr>"
  let ?up = "\<lambda>rq :: request. (Inr ?r :: exn + response)"
  let ?args = "[(''paper_id'', PStr ''nonexistent'')]"
  obtain rq where rq: "get_authors_request ?a (PStr ''nonexistent'') ?args = Inr rq"
    by (simp add: get_authors_request_def dict_get_def)
  have "map_of ?args ''paper_id'' = Some (PStr ''nonexistent'')" by simp
  from paper_not_found [OF this, of ?up ?a ?r rq ?r] rq
  show ?thesis by simp
qed

lemma repr_str_query: "repr_str ''query'' = quoted ''query''"
  by (simp add: repr_str_def repr_char_def printable_def quoted_def Let_def)

lemma repr_str_paper_id: "repr_str ''paper_id'' = quoted ''paper_id''"
  by (simp add: repr_str_def repr_char_def printable_def quoted_def Let_def)

text \<open>
  Claim C10. A call of \<^verbatim>\<open>search_paper\<close> without \<open>query\<close>, and a call of
  \<^verbatim>\<open>get_paper\<close>, \<^verbatim>\<open>get_authors\<close> or \<^verbatim>\<open>get_citation\<close> without \<open>paper_id\<close>, does not
  raise: the \<^verbatim>\<open>KeyError\<close> is caught, and the single \<open>TextContent\<close> returned holds the
  handler's error label followed by the quoted name of the missing key.
\<close>

theorem missing_required_key:
  "(map_of arguments ''query'' = None \<longrightarrow>
      handle_search_paper a up arguments
        = Inr [\<lparr>type = ''text'', text = ''Error searching papers: '' @ quoted ''query''\<rparr>])
   \<and> (map_of arguments ''paper_id'' = None \<longrightarrow>
      handle_get_paper a up arguments
        = Inr [\<lparr>type = ''text'', text = ''Error getting paper details: '' @ quoted ''paper_id''\<rparr>]
      \<and> handle_get_authors a up arguments
        = Inr [\<lparr>type = ''text'', text = ''Error getting authors: '' @ quoted ''paper_id''\<rparr>]
      \<and> handle_get_citation a up arguments
        = Inr [\<lparr>type = ''text'', text = ''Error generating citation: '' @ quoted ''paper_id''\<rparr>])"
  by (simp add: handle_search_paper_def search_paper_try_def search_paper_request_def
      search_paper_params_def handle_get_paper_def get_paper_try_def handle_get_authors_def
      get_authors_try_def handle_get_citation_def get_citation_try_def dict_item_def
      try_except_Inl repr_str_query repr_str_paper_id)

theorem missing_required_key_witness:
  "handle_search_paper (SemanticScholarServer None) (\<lambda>rq. Inl (RaisedException ''unreachable''))
      [(''limit'', PInt 5)]
     = Inr [\<lparr>type = ''text'', text = ''Error searching papers: 'query'' @ [CHR 0x27]\<rparr>]
   \<and> handle_get_citation (SemanticScholarServer None) (\<lambda>rq. Inl (RaisedException ''unreachable''))
      [(''limit'', PInt 5)]
     = Inr [\<lparr>type = ''text'', text = ''Error generating citation: 'paper_id'' @ [CHR 0x27]\<rparr>]"
  using missing_required_key [of "[(''limit'', PInt 5)]" "SemanticScholarServer None"
      "\<lambda>rq. Inl (RaisedException ''unreachable'')"]
  by (simp add: quoted_def)

subsection \<open>Dispatch and resources\<close>





subsection \<open>Citations\<close>

lemma py_in_dict: "py_in k (PDict kvs) = Inr (map_of kvs k \<noteq> None)"
  by (simp add: map_of_eq_None_iff)

lemma get_citation_try_200:
  assumes "map_of arguments ''paper_id'' = Some paper_id"
    and "dict_get arguments ''format'' (PStr ''bibtex'') = PStr fmt"
    and "up (get_citation_request a paper_id) = Inr r"
    and "status_code r = 200"
    and "json r = Inr data"
  shows "handle_get_citation a up arguments
           = try_except ''Error generating citation: '' (citation_of_data (lower fmt) data)"
  using assms
  by (simp add: handle_get_citation_def get_citation_try_def dict_item_def)

text \<open>
  Claim C2. When the upstream answers \<^verbatim>\<open>get_citation\<close> with status 200 and a JSON object
  whose \<open>citationStyles\<close> is an object that has the lower-cased requested format as a key,
  the text returned is the constant \<open>TODO\<close>, whatever the citation, the abstract and the
  format are.
\<close>

theorem citation_placeholder:
  assumes "map_of arguments ''paper_id'' = Some paper_id"
    and "dict_get arguments ''format'' (PStr ''bibtex'') = PStr fmt"
    and "up (get_citation_request a paper_id) = Inr r"
    and "status_code r = 200"
    and "json r = Inr (PDict body)"
    and "map_of body ''citationStyles'' = Some (PDict styles)"
    and "map_of styles (lower fmt) = Some citation"
  shows "handle_get_citation a up arguments = Inr [\<lparr>type = ''text'', text = ''TODO''\<rparr>]"
proof -
  from assms(6,7)
  have "citation_of_data (lower fmt) (PDict body) = Inr [\<lparr>type = ''text'', text = ''TODO''\<rparr>]"
    by (simp add: citation_of_data_def py_in_dict return_text_str add_abstract_def
        del: py_in.simps)
  with get_citation_try_200 [where up = up, OF assms(1-5)] show ?thesis
    by (simp add: try_except_Inr)
qed

theorem citation_placeholder_witness:
  "handle_get_citation (SemanticScholarServer None)
      (\<lambda>rq. Inr \<lparr>status_code = 200, text = [],
         json = Inr (PDict [(''citationStyles'', PDict [(''bibtex'', PStr ''@article{...}'')]),
                            (''abstract'', PStr ''A'')])\<rparr>)
      [(''paper_id'', PStr ''abc''), (''format'', PStr ''BibTeX'')]
     = Inr [\<lparr>type = ''text'', text = ''TODO''\<rparr>]"
proof -
  let ?body = "[(''citationStyles'', PDict [(''bibtex'', PStr ''@article{...}'')]),
                (''abstract'', PStr ''A'')]"
  let ?r = "\<lparr>status_code = 200, text = [], json = Inr (PDict ?body)\<rparr>"
  let ?args = "[(''paper_id'', PStr ''abc''), (''format'', PStr ''BibTeX'')]"
  have low: "lower ''BibTeX'' = ''bibtex''"
    by code_simp
  show ?thesis
  proof (rule citation_placeholder [where paper_id = "PStr ''abc''" and fmt = "''BibTeX''"
        and r = ?r and body = ?body and styles = "[(''bibtex'', PStr ''@article{...}'')]"
        and citation = "PStr ''@article{...}''"])
    show "map_of ?args ''paper_id'' = Some (PStr ''abc'')" by simp
    show "dict_get ?args ''format'' (PStr ''bibtex'') = PStr ''BibTeX''"
      by (simp add: dict_get_def)
    show "map_of [(''bibtex'', PStr ''@article{...}'')] (lower ''BibTeX'')
            = Some (PStr ''@article{...}'')"
      by (simp add: low)
  qed simp_all
qed



subsection \<open>The body of a successful \<^verbatim>\<open>get_authors\<close>\<close>

text \<open>
  On status 200 \<^verbatim>\<open>_handle_get_authors\<close> hands the decoded body to \<open>TextContent\<close> as it
  is. A body that is a JSON string becomes the text; any other body is rejected by the
  model's validation, and the \<^verbatim>\<open>except\<close> clause turns that into an error text.
\<close>

lemma get_authors_200:
  assumes "map_of arguments ''paper_id'' = Some paper_id"
    and "get_authors_request a paper_id arguments = Inr rq"
    and "up rq = Inr r"
    and "status_code r = 200"
    and "json r = Inr res"
  shows "handle_get_authors a up arguments =
           (case res of
              PStr s \<Rightarrow> Inr [\<lparr>type = ''text'', text = s\<rparr>]
            | _ \<Rightarrow> Inr [\<lparr>type = ''text'',
                          text = ''Error getting authors: '' @ exn_str (ValidationError res)\<rparr>])"
  using assms
  by (cases res)
     (simp_all add: handle_get_authors_def get_authors_try_def dict_item_def return_text_def
        try_except_def)

text \<open>
  Claim C1 says that \<^verbatim>\<open>get_authors\<close>, on status 200 with a JSON body, returns the textual
  serialization of that body. For the body \<^verbatim>\<open>{"data": []}\<close> the handler returns an error
  text instead, although the serialization of the body is \<^verbatim>\<open>{'data': []}\<close>, which is what
  \<^verbatim>\<open>get_paper\<close> returns for the same response.
\<close>

theorem get_authors_body_not_forwarded:
  "handle_get_authors (SemanticScholarServer None)
      (\<lambda>rq. Inr \<lparr>status_code = 200, text = [], json = Inr (PDict [(''data'', PList [])])\<rparr>)
      [(''paper_id'', PStr ''abc'')]
     = Inr [\<lparr>type = ''text'', text = ''Error getting authors: 1 validation error for TextContent''\<rparr>]
   \<and> py_str (PDict [(''data'', PList [])]) = ''{'data': []}''
   \<and> handle_get_paper (SemanticScholarServer None)
      (\<lambda>rq. Inr \<lparr>status_code = 200, text = [], json = Inr (PDict [(''data'', PList [])])\<rparr>)
      [(''paper_id'', PStr ''abc'')]
     = Inr [\<lparr>type = ''text'', text = ''{'data': []}''\<rparr>]"
proof (intro conjI)
  let ?a = "SemanticScholarServer None"
  let ?res = "PDict [(''data'', PList [])]"
  let ?r = "\<lparr>status_code = 200, text = [], json = Inr ?res\<rparr>"
  let ?args = "[(''paper_id'', PStr ''abc'')]"
  obtain rq where rq: "get_authors_request ?a (PStr ''abc'') ?args = Inr rq"
    by (simp add: get_authors_request_def dict_get_def)
  have "map_of ?args ''paper_id'' = Some (PStr ''abc'')" by simp
  from get_authors_200 [where up = "\<lambda>rq. Inr ?r", OF this rq, of ?r ?res]
  show "handle_get_authors ?a (\<lambda>rq. Inr ?r) ?args
     = Inr [\<lparr>type = ''text'', text = ''Error getting authors: 1 validation error for TextContent''\<rparr>]"
    by simp
  show str: "py_str ?res = ''{'data': []}''"
    by (simp add: repr_str_def repr_char_def printable_def Let_def)
  show "handle_get_paper ?a (\<lambda>rq. Inr ?r) ?args = Inr [\<lparr>type = ''text'', text = ''{'data': []}''\<rparr>]"
    by (simp add: handle_get_paper_def get_paper_try_def dict_item_def return_text_str
        try_except_Inr str del: py_str.simps)
qed

end
